theory Spec2Isabelle
  imports Main
begin

section \<open>Scheduling types (modules/scheduling/types.ts)\<close>

text \<open>
  The interfaces of the scheduling module, field by field. An optional field
  \<^verbatim>\<open>f?: T\<close> is a \<open>T option\<close>, \<open>None\<close> standing for \<^verbatim>\<open>undefined\<close>.
  \<^verbatim>\<open>durationMinutes\<close> is a JavaScript number that the interface documents as a count of
  minutes; it is modelled as an \<open>int\<close>. Strings are lists of characters; the values of the
  open \<^verbatim>\<open>constraints\<close> record are kept as strings.
\<close>

record Attendee =
  email :: string
  name :: "string option"
  required :: "bool option"

record TimeWindow =
  startISO :: string
  endISO :: string

record MeetingRequest =
  subject :: string
  attendees :: "Attendee list"
  durationMinutes :: "int option"
  earliestISO :: "string option"
  latestISO :: "string option"
  constraints :: "(string \<times> string) list option"

record Proposal =
  slot :: TimeWindow
  score :: int
  reason :: "string option"

record BookingResult =
  eventId :: string

text \<open>
  The service throws plain \<^verbatim>\<open>Error\<close> objects, told apart by their message only; a rejected
  promise is the left injection of a sum.
\<close>

datatype error = Error string

section \<open>Policies (core/policies.ts)\<close>

text \<open>
  The scheduling policy. The time zone of the business hours is read from the settings
  module and plays no part in the scheduling service; it is left out.
\<close>

record SchedulingPolicy =
  businessHours_start :: string
  businessHours_end :: string
  minBufferMinutes :: int
  maxMeetingsPerDay :: int
  defaultDurationMinutes :: int
  autoApproveTrustedContacts :: bool

definition schedulingPolicy :: SchedulingPolicy where
  "schedulingPolicy =
     \<lparr> businessHours_start = ''10:00'',
       businessHours_end = ''18:00'',
       minBufferMinutes = 15,
       maxMeetingsPerDay = 3,
       defaultDurationMinutes = 45,
       autoApproveTrustedContacts = True \<rparr>"

section \<open>JavaScript values\<close>

text \<open>
  Truthiness of an optional number: \<^verbatim>\<open>undefined\<close> and \<^verbatim>\<open>0\<close> are falsy. (Of an
  optional string, \<^verbatim>\<open>undefined\<close> and the empty string are.)
\<close>

definition truthy_number :: "int option \<Rightarrow> bool" where
  "truthy_number n = (case n of None \<Rightarrow> False | Some d \<Rightarrow> d \<noteq> 0)"

text \<open>
  \<^verbatim>\<open>String.prototype.trim\<close> removes white space and line terminators at both ends. On
  eight-bit characters these are TAB, LF, VT, FF, CR, SP and NBSP.
\<close>

definition isWhiteSpace :: "char \<Rightarrow> bool" where
  "isWhiteSpace c = (c \<in> set [CHR 0x09, CHR 0x0A, CHR 0x0B, CHR 0x0C, CHR 0x0D, CHR 0x20, CHR 0xA0])"

definition trim :: "string \<Rightarrow> string" where
  "trim s = rev (dropWhile isWhiteSpace (rev (dropWhile isWhiteSpace s)))"

definition str_includes :: "string \<Rightarrow> char \<Rightarrow> bool" where
  "str_includes s c = (c \<in> set s)"

text \<open>
  A \<^verbatim>\<open>Date\<close> object is its time value: \<open>Some t\<close> for \<open>t\<close> milliseconds since the epoch,
  \<open>None\<close> for the time value \<^verbatim>\<open>NaN\<close> of an invalid date. \<^verbatim>\<open>new Date(s)\<close> belongs to the
  runtime, not to the repository: every function that builds dates takes the parser as
  its first argument, and the theorems hold for every parser.
\<close>

type_synonym date = "int option"

type_synonym date_parser = "string \<Rightarrow> date"

definition date_isNaN :: "date \<Rightarrow> bool" where
  "date_isNaN d = (d = None)"

text \<open>\<^verbatim>\<open>a >= b\<close> on two dates compares the time values and is false when either is NaN.\<close>

definition date_ge :: "date \<Rightarrow> date \<Rightarrow> bool" where
  "date_ge a b = (case a of None \<Rightarrow> False | Some x \<Rightarrow> (case b of None \<Rightarrow> False | Some y \<Rightarrow> y \<le> x))"

section \<open>Request and slot validation (SchedulingService.ts)\<close>

text \<open>The loop over the attendees: the first attendee with a bad address throws.\<close>

fun validateAttendees :: "Attendee list \<Rightarrow> error + unit" where
  "validateAttendees [] = Inr ()"
| "validateAttendees (a # rest) =
     (if email a = [] \<or> \<not> str_includes (email a) (CHR ''@'')
      then Inl (Error (''Invalid email address for attendee: '' @ email a))
      else validateAttendees rest)"

text \<open>
  \<^verbatim>\<open>a && b\<close> evaluates \<open>b\<close> only when \<open>a\<close> is truthy: the duration is compared with
  zero only when it is present and not zero, and the two dates are built only when both
  bounds are present and not empty.
\<close>

definition validateMeetingRequest :: "date_parser \<Rightarrow> MeetingRequest \<Rightarrow> error + unit" where
  "validateMeetingRequest newDate request =
     (if subject request = [] \<or> length (trim (subject request)) = 0
      then Inl (Error ''Meeting subject is required'')
      else if length (attendees request) = 0
      then Inl (Error ''At least one attendee is required'')
      else case validateAttendees (attendees request) of
        Inl e \<Rightarrow> Inl e
      | Inr _ \<Rightarrow>
          if (case durationMinutes request of None \<Rightarrow> False | Some d \<Rightarrow> d \<noteq> 0 \<and> d \<le> 0)
          then Inl (Error ''Meeting duration must be positive'')
          else (case earliestISO request of
              None \<Rightarrow> Inr ()
            | Some e \<Rightarrow>
                (case latestISO request of
                   None \<Rightarrow> Inr ()
                 | Some l \<Rightarrow>
                     if e \<noteq> [] \<and> l \<noteq> []
                     then (let earliest = newDate e; latest = newDate l
                           in if date_ge earliest latest
                              then Inl (Error ''Earliest time must be before latest time'')
                              else Inr ())
                     else Inr ())))"

definition validateTimeWindow :: "date_parser \<Rightarrow> TimeWindow \<Rightarrow> error + unit" where
  "validateTimeWindow newDate w =
     (let start = newDate (startISO w);
          end' = newDate (endISO w)
      in if date_isNaN start \<or> date_isNaN end'
         then Inl (Error ''Invalid time slot format'')
         else if date_ge start end'
         then Inl (Error ''Meeting start time must be before end time'')
         else Inr ())"

text \<open>
  \<^verbatim>\<open>a || b\<close> yields \<open>b\<close> when \<open>a\<close> is falsy, so an absent and a zero duration are both
  replaced by the policy default. The spread copies every other field.
\<close>

definition enhanceRequest :: "MeetingRequest \<Rightarrow> MeetingRequest" where
  "enhanceRequest request =
     request\<lparr> durationMinutes :=
       (if truthy_number (durationMinutes request) then durationMinutes request
        else Some (defaultDurationMinutes schedulingPolicy)) \<rparr>"

section \<open>Effects: the logger and the engine calls\<close>

text \<open>
  The logger module is a write-only sink: a call to it is recorded with the source of the
  child logger, the level and the message (the structured payload is dropped). A method
  of the service returns the sequence of its effects, in order, with its outcome. The
  invocation of an engine method is an effect of its own, recorded with the constructor
  name of the engine and the arguments it is given, so that a theorem can say that an
  engine was, or was not, called.
\<close>

datatype level = DEBUG | INFO | WARN | ERROR

datatype log_record = LogRecord string level string

datatype event =
    Logged log_record
  | EnginePropose string MeetingRequest
  | EngineBook string MeetingRequest TimeWindow

fun is_engine_call :: "event \<Rightarrow> bool" where
  "is_engine_call (Logged _) = False"
| "is_engine_call (EnginePropose _ _) = True"
| "is_engine_call (EngineBook _ _ _) = True"

definition engine_calls :: "event list \<Rightarrow> event list" where
  "engine_calls t = filter is_engine_call t"

section \<open>Scheduling engines (engines/googleCalendarEngine.ts, engines/sidekickEngine.ts)\<close>

text \<open>
  The \<^verbatim>\<open>SchedulingEngine\<close> interface: an object with a constructor name and the two
  asynchronous methods, each of which writes to its own logger and then resolves or
  rejects.
\<close>

record SchedulingEngine =
  constructor_name :: string
  propose :: "MeetingRequest \<Rightarrow> log_record list \<times> (error + Proposal list)"
  book :: "MeetingRequest \<Rightarrow> TimeWindow \<Rightarrow> log_record list \<times> (error + BookingResult)"

definition GoogleCalendarEngine :: SchedulingEngine where
  "GoogleCalendarEngine =
     \<lparr> constructor_name = ''GoogleCalendarEngine'',
       propose = (\<lambda>request.
         ([LogRecord ''GoogleCalendarEngine'' DEBUG ''Proposing slots for meeting request'',
           LogRecord ''GoogleCalendarEngine'' WARN
             ''Google Calendar engine not yet implemented - returning empty proposals''],
          Inr [])),
       book = (\<lambda>request w.
         ([LogRecord ''GoogleCalendarEngine'' DEBUG ''Booking meeting slot'',
           LogRecord ''GoogleCalendarEngine'' WARN
             ''Google Calendar booking not yet implemented - returning placeholder event ID''],
          Inr \<lparr> eventId = ''TBD'' \<rparr>)) \<rparr>"

definition SidekickEngine :: SchedulingEngine where
  "SidekickEngine =
     \<lparr> constructor_name = ''SidekickEngine'',
       propose = (\<lambda>request.
         ([LogRecord ''SidekickEngine'' DEBUG ''Proposing slots via Sidekick API'',
           LogRecord ''SidekickEngine'' WARN
             ''Sidekick API integration not yet implemented - returning empty proposals''],
          Inr [])),
       book = (\<lambda>request w.
         ([LogRecord ''SidekickEngine'' DEBUG ''Booking meeting via Sidekick API'',
           LogRecord ''SidekickEngine'' WARN
             ''Sidekick booking not yet implemented - returning placeholder event ID''],
          Inr \<lparr> eventId = ''TBD'' \<rparr>)) \<rparr>"

text \<open>The constructors of the two engines log one record and build the object.\<close>

definition new_GoogleCalendarEngine :: "log_record list \<times> SchedulingEngine" where
  "new_GoogleCalendarEngine =
     ([LogRecord ''GoogleCalendarEngine'' DEBUG ''Google Calendar scheduling engine initialized''],
      GoogleCalendarEngine)"

definition new_SidekickEngine :: "log_record list \<times> SchedulingEngine" where
  "new_SidekickEngine =
     ([LogRecord ''SidekickEngine'' DEBUG ''Sidekick scheduling engine initialized''],
      SidekickEngine)"

section \<open>The scheduling service (SchedulingService.ts)\<close>

text \<open>
  The object has one field that matters, the engine. \<^verbatim>\<open>process.env\<close> is a map from
  variable names to strings.
\<close>

record SchedulingService =
  engine :: SchedulingEngine

type_synonym process_env = "string \<Rightarrow> string option"

definition createEngine :: "process_env \<Rightarrow> log_record list \<times> SchedulingEngine" where
  "createEngine env =
     (let useSidekick = (env ''ENABLE_SIDEKICK'' = Some ''true'')
      in if useSidekick
         then (LogRecord ''SchedulingService'' INFO ''Using Sidekick scheduling engine''
                 # fst new_SidekickEngine, snd new_SidekickEngine)
         else (LogRecord ''SchedulingService'' INFO ''Using Google Calendar scheduling engine''
                 # fst new_GoogleCalendarEngine, snd new_GoogleCalendarEngine))"

definition getEngineType :: "SchedulingService \<Rightarrow> string" where
  "getEngineType this = constructor_name (engine this)"

definition new_SchedulingService :: "process_env \<Rightarrow> log_record list \<times> SchedulingService" where
  "new_SchedulingService env =
     (let created = createEngine env
      in (fst created @ [LogRecord ''SchedulingService'' INFO ''Scheduling service initialized''],
          \<lparr> engine = snd created \<rparr>))"

text \<open>
  The two public methods. The \<^verbatim>\<open>catch\<close> block logs and throws the error it caught, so the
  rejection of the method is the error of the step that failed.
\<close>

definition proposeSlots ::
  "date_parser \<Rightarrow> SchedulingService \<Rightarrow> MeetingRequest \<Rightarrow> event list \<times> (error + Proposal list)" where
  "proposeSlots newDate this request =
     (let entry = [Logged (LogRecord ''SchedulingService'' DEBUG ''Proposing meeting slots'')];
          failed = [Logged (LogRecord ''SchedulingService'' ERROR ''Failed to propose meeting slots'')]
      in case validateMeetingRequest newDate request of
           Inl err \<Rightarrow> (entry @ failed, Inl err)
         | Inr _ \<Rightarrow>
             (let enhancedRequest = enhanceRequest request;
                  answer = propose (engine this) enhancedRequest;
                  called = entry @ [EnginePropose (getEngineType this) enhancedRequest]
                             @ map Logged (fst answer)
              in case snd answer of
                   Inl err \<Rightarrow> (called @ failed, Inl err)
                 | Inr proposals \<Rightarrow>
                     (called @ [Logged (LogRecord ''SchedulingService'' DEBUG
                                  ''Generated meeting proposals'')],
                      Inr proposals)))"

definition confirmSlot ::
  "date_parser \<Rightarrow> SchedulingService \<Rightarrow> MeetingRequest \<Rightarrow> TimeWindow
     \<Rightarrow> event list \<times> (error + BookingResult)" where
  "confirmSlot newDate this request chosenSlot =
     (let entry = [Logged (LogRecord ''SchedulingService'' DEBUG ''Confirming meeting slot'')];
          failed = [Logged (LogRecord ''SchedulingService'' ERROR ''Failed to confirm meeting slot'')]
      in case validateMeetingRequest newDate request of
           Inl err \<Rightarrow> (entry @ failed, Inl err)
         | Inr _ \<Rightarrow>
             (case validateTimeWindow newDate chosenSlot of
                Inl err \<Rightarrow> (entry @ failed, Inl err)
              | Inr _ \<Rightarrow>
                  (let enhancedRequest = enhanceRequest request;
                       answer = book (engine this) enhancedRequest chosenSlot;
                       called = entry @ [EngineBook (getEngineType this) enhancedRequest chosenSlot]
                                  @ map Logged (fst answer)
                   in case snd answer of
                        Inl err \<Rightarrow> (called @ failed, Inl err)
                      | Inr result \<Rightarrow>
                          (called @ [Logged (LogRecord ''SchedulingService'' INFO
                                       ''Meeting successfully booked'')],
                           Inr result))))"

section \<open>A date parser to run the service with\<close>

text \<open>
  The date-time string format of ECMAScript in its full UTC form,
  \<^verbatim>\<open>YYYY-MM-DDTHH:mm:ss.sssZ\<close>, which is what \<^verbatim>\<open>Date.prototype.toISOString\<close> writes and what
  the tests of the repository use. Any other string is an invalid date here. It serves
  as one parser at which the theorems below are instantiated; none of them depends on it.
\<close>

definition digitValue :: "char \<Rightarrow> nat option" where
  "digitValue c =
     (let n = (of_char c :: nat) in if 48 \<le> n \<and> n \<le> 57 then Some (n - 48) else None)"

fun decimal :: "nat \<Rightarrow> string \<Rightarrow> nat option" where
  "decimal acc [] = Some acc"
| "decimal acc (c # cs) =
     (case digitValue c of None \<Rightarrow> None | Some d \<Rightarrow> decimal (10 * acc + d) cs)"

definition isLeapYear :: "int \<Rightarrow> bool" where
  "isLeapYear y = (y mod 4 = 0 \<and> (y mod 100 \<noteq> 0 \<or> y mod 400 = 0))"

definition daysInMonth :: "int \<Rightarrow> int \<Rightarrow> int" where
  "daysInMonth y m =
     (if m = 2 then (if isLeapYear y then 29 else 28)
      else if m = 4 \<or> m = 6 \<or> m = 9 \<or> m = 11 then 30 else 31)"

text \<open>Days from 1970-01-01 to the given day of the proleptic Gregorian calendar.\<close>

definition daysFromCivil :: "int \<Rightarrow> int \<Rightarrow> int \<Rightarrow> int" where
  "daysFromCivil y m d =
     (let y' = (if m \<le> 2 then y - 1 else y);
          era = y' div 400;
          yoe = y' - era * 400;
          doy = (153 * (if 2 < m then m - 3 else m + 9) + 2) div 5 + d - 1;
          doe = yoe * 365 + yoe div 4 - yoe div 100 + doy
      in era * 146097 + doe - 719468)"

definition isoDateTime :: date_parser where
  "isoDateTime s =
     (if length s = 24 \<and> s ! 4 = CHR ''-'' \<and> s ! 7 = CHR ''-'' \<and> s ! 10 = CHR ''T''
         \<and> s ! 13 = CHR '':'' \<and> s ! 16 = CHR '':'' \<and> s ! 19 = CHR ''.'' \<and> s ! 23 = CHR ''Z''
      then
        (case decimal 0 (take 4 s) of None \<Rightarrow> None | Some y \<Rightarrow>
         case decimal 0 (take 2 (drop 5 s)) of None \<Rightarrow> None | Some m \<Rightarrow>
         case decimal 0 (take 2 (drop 8 s)) of None \<Rightarrow> None | Some d \<Rightarrow>
         case decimal 0 (take 2 (drop 11 s)) of None \<Rightarrow> None | Some h \<Rightarrow>
         case decimal 0 (take 2 (drop 14 s)) of None \<Rightarrow> None | Some mi \<Rightarrow>
         case decimal 0 (take 2 (drop 17 s)) of None \<Rightarrow> None | Some sec \<Rightarrow>
         case decimal 0 (take 3 (drop 20 s)) of None \<Rightarrow> None | Some ms \<Rightarrow>
           if 1 \<le> m \<and> m \<le> 12 \<and> 1 \<le> d \<and> int d \<le> daysInMonth (int y) (int m)
              \<and> mi \<le> 59 \<and> sec \<le> 59
              \<and> (h \<le> 23 \<or> (h = 24 \<and> mi = 0 \<and> sec = 0 \<and> ms = 0))
           then Some ((((daysFromCivil (int y) (int m) (int d) * 24 + int h) * 60 + int mi) * 60
                        + int sec) * 1000 + int ms)
           else None)
      else None)"

text \<open>The request and the slot of the repository's test suite, and variations of them.\<close>

definition dummyRequest :: MeetingRequest where
  "dummyRequest =
     \<lparr> subject = ''Test Meeting'',
       attendees =
         [\<lparr> email = ''test@example.com'', name = Some ''Test User'', required = Some True \<rparr>,
          \<lparr> email = ''another@example.com'', name = Some ''Another User'', required = None \<rparr>],
       durationMinutes = Some 30,
       earliestISO = Some ''2024-01-15T10:00:00.000Z'',
       latestISO = Some ''2024-01-15T18:00:00.000Z'',
       constraints = None \<rparr>"

definition dummySlot :: TimeWindow where
  "dummySlot =
     \<lparr> startISO = ''2024-01-15T14:00:00.000Z'', endISO = ''2024-01-15T14:30:00.000Z'' \<rparr>"

section \<open>The validation order as the specification words it\<close>

text \<open>
  The specification lists five preconditions, each with the error of its failure, and
  says that the first one that fails decides the outcome. A check is a pair of its truth
  value and its error; \<open>first_failing_check\<close> walks the list in order.
\<close>

definition first_failing_check :: "(bool \<times> error) list \<Rightarrow> error + unit" where
  "first_failing_check checks =
     (case find (\<lambda>c. \<not> fst c) checks of None \<Rightarrow> Inr () | Some c \<Rightarrow> Inl (snd c))"

text \<open>\<^verbatim>\<open>a < b\<close> on two dates: false when either is invalid.\<close>

definition date_before :: "date \<Rightarrow> date \<Rightarrow> bool" where
  "date_before a b =
     (case a of None \<Rightarrow> False | Some x \<Rightarrow> (case b of None \<Rightarrow> False | Some y \<Rightarrow> x < y))"

text \<open>
  The first four preconditions: the subject is not empty after trimming, there is an
  attendee, every attendee's address contains an \<open>@\<close> (the error names the first address
  that does not), and the duration, when present, is positive.
\<close>

definition spec_checks_before_range :: "MeetingRequest \<Rightarrow> (bool \<times> error) list" where
  "spec_checks_before_range r =
     [(trim (subject r) \<noteq> [], Error ''Meeting subject is required''),
      (attendees r \<noteq> [], Error ''At least one attendee is required''),
      (list_all (\<lambda>a. CHR ''@'' \<in> set (email a)) (attendees r),
       Error (''Invalid email address for attendee: ''
               @ (case find (\<lambda>a. CHR ''@'' \<notin> set (email a)) (attendees r) of
                    None \<Rightarrow> [] | Some a \<Rightarrow> email a))),
      ((case durationMinutes r of None \<Rightarrow> True | Some d \<Rightarrow> 0 < d),
       Error ''Meeting duration must be positive'')]"

text \<open>
  The fifth precondition as the specification has it: when both bounds are present, the
  earliest is before the latest.
\<close>

definition spec_checks :: "date_parser \<Rightarrow> MeetingRequest \<Rightarrow> (bool \<times> error) list" where
  "spec_checks D r =
     spec_checks_before_range r @
     [((case earliestISO r of None \<Rightarrow> True | Some e \<Rightarrow>
          (case latestISO r of None \<Rightarrow> True | Some l \<Rightarrow> date_before (D e) (D l))),
       Error ''Earliest time must be before latest time'')]"

text \<open>
  The fifth precondition as the service applies it: it concerns only bounds that are both
  present, both not empty and both valid dates.
\<close>

definition amended_checks :: "date_parser \<Rightarrow> MeetingRequest \<Rightarrow> (bool \<times> error) list" where
  "amended_checks D r =
     spec_checks_before_range r @
     [((case earliestISO r of None \<Rightarrow> True | Some e \<Rightarrow>
          (case latestISO r of None \<Rightarrow> True | Some l \<Rightarrow>
             e = [] \<or> l = [] \<or> D e = None \<or> D l = None \<or> date_before (D e) (D l))),
       Error ''Earliest time must be before latest time'')]"


section \<open>The module and its singleton\<close>

text \<open>
  The module builds one service when it is loaded
  (\<^verbatim>\<open>const schedulingService = new SchedulingService()\<close>) and exports two functions that
  call it. A process is the environment, that singleton and the effects so far. After the
  load, the environment may change and the exported functions may be called, in any
  order.
\<close>

record process =
  env :: process_env
  schedulingService :: SchedulingService
  trace :: "event list"

definition loadModule :: "process_env \<Rightarrow> process" where
  "loadModule e =
     (let made = new_SchedulingService e
      in \<lparr> env = e, schedulingService = snd made, trace = map Logged (fst made) \<rparr>)"

datatype action =
    SetEnv string "string option"
  | CallProposeSlots MeetingRequest
  | CallConfirmSlot MeetingRequest TimeWindow

fun step :: "date_parser \<Rightarrow> process \<Rightarrow> action \<Rightarrow> process" where
  "step D p (SetEnv k v) = p\<lparr> env := (env p)(k := v) \<rparr>"
| "step D p (CallProposeSlots r) =
     p\<lparr> trace := trace p @ fst (proposeSlots D (schedulingService p) r) \<rparr>"
| "step D p (CallConfirmSlot r w) =
     p\<lparr> trace := trace p @ fst (confirmSlot D (schedulingService p) r w) \<rparr>"

definition run :: "date_parser \<Rightarrow> process \<Rightarrow> action list \<Rightarrow> process" where
  "run D p acts = foldl (step D) p acts"

text \<open>\<^verbatim>\<open>createEngine\<close> logs which engine it picked: one such record per resolution.\<close>

definition is_engine_resolution :: "event \<Rightarrow> bool" where
  "is_engine_resolution ev =
     (ev = Logged (LogRecord ''SchedulingService'' INFO ''Using Sidekick scheduling engine'')
      \<or> ev = Logged (LogRecord ''SchedulingService'' INFO ''Using Google Calendar scheduling engine''))"

definition engine_resolutions :: "event list \<Rightarrow> nat" where
  "engine_resolutions t = length (filter is_engine_resolution t)"


section \<open>Requests as objects in a store\<close>










section \<open>Concrete requests, slots and environments\<close>

definition unparseableBoundRequest :: MeetingRequest where
  "unparseableBoundRequest = dummyRequest\<lparr> earliestISO := Some ''invalid-date'' \<rparr>"

definition noAttendeesRequest :: MeetingRequest where
  "noAttendeesRequest = dummyRequest\<lparr> attendees := [], durationMinutes := Some (- 30) \<rparr>"

definition zeroDurationRequest :: MeetingRequest where
  "zeroDurationRequest = dummyRequest\<lparr> durationMinutes := Some 0 \<rparr>"

definition sidekickEnv :: process_env where
  "sidekickEnv = (\<lambda>v. if v = ''ENABLE_SIDEKICK'' then Some ''true'' else None)"

definition toggleThenPropose :: "action list" where
  "toggleThenPropose = [SetEnv ''ENABLE_SIDEKICK'' (Some ''false''), CallProposeSlots dummyRequest]"

text \<open>The request of the specification's proposal scenario: no duration is given.\<close>

definition syncRequest :: MeetingRequest where
  "syncRequest =
     \<lparr> subject = ''Sync'',
       attendees = [\<lparr> email = ''a@x.com'', name = None, required = Some True \<rparr>],
       durationMinutes = None,
       earliestISO = Some ''2024-01-15T10:00:00.000Z'',
       latestISO = Some ''2024-01-15T18:00:00.000Z'',
       constraints = None \<rparr>"

text \<open>A test double: an engine whose backend rejects every call.\<close>

definition unavailableEngine :: SchedulingEngine where
  "unavailableEngine =
     \<lparr> constructor_name = ''UnavailableEngine'',
       propose = (\<lambda>request. ([], Inl (Error ''calendar backend unavailable''))),
       book = (\<lambda>request w. ([], Inl (Error ''slot is no longer available''))) \<rparr>"

text \<open>The two bad slots of the test suite.\<close>

definition invalidSlot :: TimeWindow where
  "invalidSlot = \<lparr> startISO = ''invalid-date'', endISO = ''2024-01-15T14:30:00.000Z'' \<rparr>"

definition invertedSlot :: TimeWindow where
  "invertedSlot =
     \<lparr> startISO = ''2024-01-15T14:30:00.000Z'', endISO = ''2024-01-15T14:00:00.000Z'' \<rparr>"



section \<open>Lemmas about the two methods\<close>

lemma engine_calls_Logged: "engine_calls (map Logged xs) = []"
  by (induction xs) (simp_all add: engine_calls_def)

lemma engine_calls_append: "engine_calls (xs @ ys) = engine_calls xs @ engine_calls ys"
  by (simp add: engine_calls_def)

lemma proposeSlots_rejected:
  assumes "validateMeetingRequest D r = Inl e"
  shows "proposeSlots D svc r =
           ([Logged (LogRecord ''SchedulingService'' DEBUG ''Proposing meeting slots''),
             Logged (LogRecord ''SchedulingService'' ERROR ''Failed to propose meeting slots'')],
            Inl e)"
  using assms by (simp add: proposeSlots_def)

lemma proposeSlots_accepted:
  assumes "validateMeetingRequest D r = Inr u"
  shows "snd (proposeSlots D svc r) = snd (propose (engine svc) (enhanceRequest r))"
    and "engine_calls (fst (proposeSlots D svc r)) = [EnginePropose (getEngineType svc) (enhanceRequest r)]"
  using assms
  by (auto simp add: proposeSlots_def Let_def engine_calls_append engine_calls_Logged split: sum.splits)
     (simp_all add: engine_calls_def)

lemma confirmSlot_rejected_request:
  assumes "validateMeetingRequest D r = Inl e"
  shows "confirmSlot D svc r w =
           ([Logged (LogRecord ''SchedulingService'' DEBUG ''Confirming meeting slot''),
             Logged (LogRecord ''SchedulingService'' ERROR ''Failed to confirm meeting slot'')],
            Inl e)"
  using assms by (simp add: confirmSlot_def)

lemma confirmSlot_rejected_slot:
  assumes "validateMeetingRequest D r = Inr u" and "validateTimeWindow D w = Inl e"
  shows "confirmSlot D svc r w =
           ([Logged (LogRecord ''SchedulingService'' DEBUG ''Confirming meeting slot''),
             Logged (LogRecord ''SchedulingService'' ERROR ''Failed to confirm meeting slot'')],
            Inl e)"
  using assms by (simp add: confirmSlot_def)

lemma confirmSlot_accepted:
  assumes "validateMeetingRequest D r = Inr u" and "validateTimeWindow D w = Inr v"
  shows "snd (confirmSlot D svc r w) = snd (book (engine svc) (enhanceRequest r) w)"
    and "engine_calls (fst (confirmSlot D svc r w)) = [EngineBook (getEngineType svc) (enhanceRequest r) w]"
  using assms
  by (auto simp add: confirmSlot_def Let_def engine_calls_append engine_calls_Logged split: sum.splits)
     (simp_all add: engine_calls_def)

lemma no_calls_in_logs [simp]:
  "engine_calls [Logged a, Logged b] = []"
  by (simp add: engine_calls_def)

lemma validateAttendees_ok:
  "validateAttendees xs = Inr () \<longleftrightarrow> (\<forall>a\<in>set xs. CHR ''@'' \<in> set (email a))"
  by (induction xs) (auto simp add: str_includes_def)

lemma validateAttendees_first_offender:
  "validateAttendees xs =
     (case find (\<lambda>a. CHR ''@'' \<notin> set (email a)) xs of
        None \<Rightarrow> Inr ()
      | Some a \<Rightarrow> Inl (Error (''Invalid email address for attendee: '' @ email a)))"
  by (induction xs) (auto simp add: str_includes_def)

section \<open>The validation order\<close>

lemma trim_Nil: "trim [] = []"
  by (simp add: trim_def)

lemma trim_empty_iff: "trim s = [] \<longleftrightarrow> (\<forall>c\<in>set s. isWhiteSpace c)"
proof
  assume "trim s = []"
  then have all: "\<forall>c\<in>set (dropWhile isWhiteSpace s). isWhiteSpace c"
    by (simp add: trim_def dropWhile_eq_Nil_conv)
  have "dropWhile isWhiteSpace s = []"
  proof (rule ccontr)
    assume ne: "dropWhile isWhiteSpace s \<noteq> []"
    then have "\<not> isWhiteSpace (hd (dropWhile isWhiteSpace s))"
      by (rule hd_dropWhile)
    moreover from ne have "hd (dropWhile isWhiteSpace s) \<in> set (dropWhile isWhiteSpace s)"
      by simp
    ultimately show False using all by blast
  qed
  then show "\<forall>c\<in>set s. isWhiteSpace c"
    by (simp add: dropWhile_eq_Nil_conv)
next
  assume "\<forall>c\<in>set s. isWhiteSpace c"
  then have dw: "dropWhile isWhiteSpace s = []"
    by (simp add: dropWhile_eq_Nil_conv)
  show "trim s = []"
    by (simp only: trim_def dw rev.simps dropWhile.simps)
qed

lemma subject_check:
  "(s = [] \<or> length (trim s) = 0) \<longleftrightarrow> trim s = []"
  "(s = [] \<or> trim s = []) \<longleftrightarrow> trim s = []"
  by (auto simp add: trim_Nil)

lemma range_check:
  "(case earliestISO r of None \<Rightarrow> Inr ()
    | Some e \<Rightarrow>
        (case latestISO r of None \<Rightarrow> Inr ()
         | Some l \<Rightarrow>
             if e \<noteq> [] \<and> l \<noteq> []
             then (let earliest = D e; latest = D l
                   in if date_ge earliest latest
                      then Inl (Error ''Earliest time must be before latest time'')
                      else Inr ())
             else Inr ()))
   = (if (case earliestISO r of None \<Rightarrow> True | Some e \<Rightarrow>
          (case latestISO r of None \<Rightarrow> True | Some l \<Rightarrow>
             e = [] \<or> l = [] \<or> D e = None \<or> D l = None \<or> date_before (D e) (D l)))
      then Inr () else Inl (Error ''Earliest time must be before latest time''))"
  by (auto simp add: date_ge_def date_before_def Let_def split: option.splits)

lemma validate_refines_amended:
  assumes "durationMinutes r \<noteq> Some 0"
  shows "validateMeetingRequest D r = first_failing_check (amended_checks D r)"
proof (cases "trim (subject r) = []")
  case True
  then show ?thesis
    by (simp add: validateMeetingRequest_def subject_check first_failing_check_def
          amended_checks_def spec_checks_before_range_def)
next
  case subj': False
  then have subj: "trim (subject r) \<noteq> []" "subject r \<noteq> []"
    by (auto simp add: trim_Nil)
  show ?thesis
  proof (cases "attendees r = []")
    case True
    with subj show ?thesis
      by (simp add: validateMeetingRequest_def subject_check first_failing_check_def
            amended_checks_def spec_checks_before_range_def)
  next
    case att: False
    show ?thesis
    proof (cases "find (\<lambda>a. CHR ''@'' \<notin> set (email a)) (attendees r)")
      case (Some a)
      then have nall: "\<not> list_all (\<lambda>a. CHR ''@'' \<in> set (email a)) (attendees r)"
        by (auto simp add: find_Some_iff list_all_iff)
      from Some have va: "validateAttendees (attendees r) =
          Inl (Error (''Invalid email address for attendee: '' @ email a))"
        by (simp add: validateAttendees_first_offender)
      from subj att nall va Some show ?thesis
        by (simp add: validateMeetingRequest_def subject_check first_failing_check_def
              amended_checks_def spec_checks_before_range_def)
    next
      case None
      then have all: "list_all (\<lambda>a. CHR ''@'' \<in> set (email a)) (attendees r)"
        by (simp add: find_None_iff list_all_iff)
      from None have va: "validateAttendees (attendees r) = Inr ()"
        by (simp add: validateAttendees_first_offender)
      have dur: "(case durationMinutes r of None \<Rightarrow> False | Some d \<Rightarrow> d \<noteq> 0 \<and> d \<le> 0)
                 = (\<not> (case durationMinutes r of None \<Rightarrow> True | Some d \<Rightarrow> 0 < d))"
        using assms by (auto split: option.splits)
      from subj att all va show ?thesis
        unfolding validateMeetingRequest_def subject_check range_check dur 
        by (simp add: first_failing_check_def amended_checks_def spec_checks_before_range_def)
    qed
  qed
qed


text \<open>
  C1 as the specification states it: the five preconditions of \<open>spec_checks\<close> are tried in
  order, the first failure is the outcome, and no engine is called on a failure. This
  does not hold of a request whose earliest bound is not a date: the specification's
  fifth precondition fails (the bound is not before the latest one), while the service
  compares an invalid date, finds nothing wrong and hands the request to the engine.
\<close>

theorem C1_counterexample:
  "first_failing_check (spec_checks isoDateTime unparseableBoundRequest)
     = Inl (Error ''Earliest time must be before latest time'')
   \<and> validateMeetingRequest isoDateTime unparseableBoundRequest = Inr ()
   \<and> snd (proposeSlots isoDateTime \<lparr> engine = GoogleCalendarEngine \<rparr> unparseableBoundRequest) = Inr []
   \<and> engine_calls (fst (proposeSlots isoDateTime \<lparr> engine = GoogleCalendarEngine \<rparr> unparseableBoundRequest))
       = [EnginePropose ''GoogleCalendarEngine'' unparseableBoundRequest]"
  by code_simp

text \<open>
  C1, amended: for every request whose duration is not zero, the outcome of the
  validation is the first failure, in order, among: subject not empty after trimming;
  at least one attendee; every address contains an \<open>@\<close>; duration positive when present;
  earliest before latest when both bounds are present, not empty and valid dates. When a
  check fails, \<^verbatim>\<open>proposeSlots\<close> and \<^verbatim>\<open>confirmSlot\<close> reject with that error and call no engine.
  (In the code the errors are \<^verbatim>\<open>Error\<close> objects with the messages below; the specification
  names them \<^verbatim>\<open>InvalidRequest\<close>.)
\<close>

theorem C1_validation_order:
  assumes "durationMinutes r \<noteq> Some 0"
  shows "validateMeetingRequest D r = first_failing_check (amended_checks D r)
    \<and> (\<forall>e. first_failing_check (amended_checks D r) = Inl e \<longrightarrow>
          snd (proposeSlots D svc r) = Inl e \<and> engine_calls (fst (proposeSlots D svc r)) = []
          \<and> snd (confirmSlot D svc r w) = Inl e \<and> engine_calls (fst (confirmSlot D svc r w)) = [])"
proof -
  have eq: "validateMeetingRequest D r = first_failing_check (amended_checks D r)"
    using assms by (rule validate_refines_amended)
  have "snd (proposeSlots D svc r) = Inl e \<and> engine_calls (fst (proposeSlots D svc r)) = []
      \<and> snd (confirmSlot D svc r w) = Inl e \<and> engine_calls (fst (confirmSlot D svc r w)) = []"
    if "first_failing_check (amended_checks D r) = Inl e" for e
  proof -
    from that eq have "validateMeetingRequest D r = Inl e" by simp
    then show ?thesis
      by (simp add: proposeSlots_rejected confirmSlot_rejected_request)
  qed
  with eq show ?thesis by blast
qed

theorem C1_validation_order_witness:
  "durationMinutes noAttendeesRequest \<noteq> Some 0
   \<and> validateMeetingRequest isoDateTime noAttendeesRequest
       = Inl (Error ''At least one attendee is required'')
   \<and> snd (proposeSlots isoDateTime \<lparr> engine = SidekickEngine \<rparr> noAttendeesRequest)
       = Inl (Error ''At least one attendee is required'')
   \<and> engine_calls (fst (proposeSlots isoDateTime \<lparr> engine = SidekickEngine \<rparr> noAttendeesRequest)) = []
   \<and> snd (confirmSlot isoDateTime \<lparr> engine = SidekickEngine \<rparr> noAttendeesRequest dummySlot)
       = Inl (Error ''At least one attendee is required'')
   \<and> engine_calls (fst (confirmSlot isoDateTime \<lparr> engine = SidekickEngine \<rparr> noAttendeesRequest dummySlot)) = []"
proof -
  have h: "durationMinutes noAttendeesRequest \<noteq> Some 0"
    by (simp add: noAttendeesRequest_def dummyRequest_def)
  have f: "first_failing_check (amended_checks isoDateTime noAttendeesRequest)
             = Inl (Error ''At least one attendee is required'')"
    by code_simp
  from C1_validation_order [OF h, of isoDateTime "\<lparr> engine = SidekickEngine \<rparr>" dummySlot] f h
  show ?thesis by simp
qed


section \<open>Durations that are not positive\<close>

text \<open>A negative duration is rejected whenever the checks before it pass.\<close>

lemma nonzero_nonpositive_duration_rejected:
  assumes "validateMeetingRequest D (r\<lparr> durationMinutes := None \<rparr>) = Inr ()"
    and "durationMinutes r = Some d" and "d < 0"
  shows "validateMeetingRequest D r = Inl (Error ''Meeting duration must be positive'')"
  using assms
  by (auto simp add: validateMeetingRequest_def split: if_splits sum.splits)

text \<open>
  C2: a duration that is present and not positive, zero included, is rejected with
  "duration must be positive" before any engine call. The service does so for negative
  durations only. With \<^verbatim>\<open>durationMinutes: 0\<close> the guard
  \<^verbatim>\<open>request.durationMinutes && request.durationMinutes <= 0\<close> is falsy: the validation
  succeeds, the duration becomes the default 45 and the engine is called.
\<close>

theorem C2_zero_duration_reaches_engine:
  "validateMeetingRequest isoDateTime zeroDurationRequest = Inr ()
   \<and> snd (proposeSlots isoDateTime (snd (new_SchedulingService (\<lambda>v. None))) zeroDurationRequest) = Inr []
   \<and> engine_calls (fst (proposeSlots isoDateTime (snd (new_SchedulingService (\<lambda>v. None))) zeroDurationRequest))
       = [EnginePropose ''GoogleCalendarEngine'' (zeroDurationRequest\<lparr> durationMinutes := Some 45 \<rparr>)]
   \<and> snd (confirmSlot isoDateTime (snd (new_SchedulingService (\<lambda>v. None))) zeroDurationRequest dummySlot)
       = Inr \<lparr> eventId = ''TBD'' \<rparr>"
  by code_simp


section \<open>Engine selection\<close>

lemma createEngine_cases:
  "snd (createEngine e) =
     (if e ''ENABLE_SIDEKICK'' = Some ''true'' then SidekickEngine else GoogleCalendarEngine)"
  by (simp add: createEngine_def new_SidekickEngine_def new_GoogleCalendarEngine_def)

lemma new_service_engine: "engine (snd (new_SchedulingService e)) = snd (createEngine e)"
  by (simp add: new_SchedulingService_def Let_def)

lemma constructor_resolves_once:
  "engine_resolutions (map Logged (fst (new_SchedulingService e))) = 1"
  by (simp add: engine_resolutions_def is_engine_resolution_def new_SchedulingService_def
        createEngine_def new_SidekickEngine_def new_GoogleCalendarEngine_def Let_def)

lemma engine_resolutions_append:
  "engine_resolutions (xs @ ys) = engine_resolutions xs + engine_resolutions ys"
  by (simp add: engine_resolutions_def)

lemma stub_logs_no_resolution:
  assumes "eng = SidekickEngine \<or> eng = GoogleCalendarEngine"
  shows "engine_resolutions (map Logged (fst (propose eng q))) = 0"
    and "engine_resolutions (map Logged (fst (book eng q w))) = 0"
  using assms
  by (auto simp add: engine_resolutions_def is_engine_resolution_def SidekickEngine_def
        GoogleCalendarEngine_def)

lemma proposeSlots_no_resolution:
  assumes "engine svc = SidekickEngine \<or> engine svc = GoogleCalendarEngine"
  shows "engine_resolutions (fst (proposeSlots D svc r)) = 0"
proof (cases "validateMeetingRequest D r")
  case (Inl e)
  then show ?thesis
    by (simp add: proposeSlots_rejected engine_resolutions_def is_engine_resolution_def)
next
  case (Inr u)
  have "engine_resolutions (map Logged (fst (propose (engine svc) (enhanceRequest r)))) = 0"
    using assms by (rule stub_logs_no_resolution)
  with Inr show ?thesis
    by (cases "snd (propose (engine svc) (enhanceRequest r))")
       (simp_all add: proposeSlots_def Let_def engine_resolutions_append,
        simp_all add: engine_resolutions_def is_engine_resolution_def)
qed

lemma confirmSlot_no_resolution:
  assumes "engine svc = SidekickEngine \<or> engine svc = GoogleCalendarEngine"
  shows "engine_resolutions (fst (confirmSlot D svc r w)) = 0"
proof (cases "validateMeetingRequest D r")
  case (Inl e)
  then show ?thesis
    by (simp add: confirmSlot_rejected_request engine_resolutions_def is_engine_resolution_def)
next
  case (Inr u)
  show ?thesis
  proof (cases "validateTimeWindow D w")
    case (Inl e)
    with Inr show ?thesis
      by (simp add: confirmSlot_rejected_slot engine_resolutions_def is_engine_resolution_def)
  next
    case w_ok: (Inr v)
    have "engine_resolutions (map Logged (fst (book (engine svc) (enhanceRequest r) w))) = 0"
      using assms by (rule stub_logs_no_resolution)
    with Inr w_ok show ?thesis
      by (cases "snd (book (engine svc) (enhanceRequest r) w)")
         (simp_all add: confirmSlot_def Let_def engine_resolutions_append,
          simp_all add: engine_resolutions_def is_engine_resolution_def)
  qed
qed

lemma step_keeps_service: "schedulingService (step D p a) = schedulingService p"
  by (cases a) simp_all

lemma step_keeps_resolutions:
  assumes "engine (schedulingService p) = SidekickEngine
           \<or> engine (schedulingService p) = GoogleCalendarEngine"
  shows "engine_resolutions (trace (step D p a)) = engine_resolutions (trace p)"
  using assms
  by (cases a)
     (simp_all add: engine_resolutions_append proposeSlots_no_resolution confirmSlot_no_resolution)

lemma run_invariant:
  assumes "engine (schedulingService p) = SidekickEngine
           \<or> engine (schedulingService p) = GoogleCalendarEngine"
  shows "schedulingService (run D p acts) = schedulingService p
         \<and> engine_resolutions (trace (run D p acts)) = engine_resolutions (trace p)"
  using assms
proof (induction acts arbitrary: p)
  case Nil
  then show ?case by (simp add: run_def)
next
  case (Cons a acts)
  have svc: "schedulingService (step D p a) = schedulingService p"
    by (rule step_keeps_service)
  with Cons.prems have "engine (schedulingService (step D p a)) = SidekickEngine
           \<or> engine (schedulingService (step D p a)) = GoogleCalendarEngine"
    by simp
  from Cons.IH [OF this] svc step_keeps_resolutions [OF Cons.prems]
  show ?case by (simp add: run_def)
qed

text \<open>
  C3: the constructor resolves the engine from \<^verbatim>\<open>ENABLE_SIDEKICK\<close>: the value \<^verbatim>\<open>"true"\<close>
  gives the Sidekick engine, anything else (absent, \<^verbatim>\<open>"false"\<close>) the Google Calendar
  engine. Two environments with the same value of the toggle give the same service.
  Whatever happens after the module is loaded (calls of the two exported functions,
  changes of the environment), the singleton keeps the service it was built with, and
  the effects of the process contain exactly one engine resolution.
\<close>

theorem C3_engine_selection:
  "snd (createEngine e) =
     (if e ''ENABLE_SIDEKICK'' = Some ''true'' then SidekickEngine else GoogleCalendarEngine)
   \<and> engine (snd (new_SchedulingService e)) = snd (createEngine e)
   \<and> (e ''ENABLE_SIDEKICK'' = e' ''ENABLE_SIDEKICK'' \<longrightarrow>
        snd (new_SchedulingService e) = snd (new_SchedulingService e'))
   \<and> schedulingService (run D (loadModule e) acts) = snd (new_SchedulingService e)
   \<and> engine_resolutions (trace (run D (loadModule e) acts)) = 1"
proof -
  have stub: "engine (schedulingService (loadModule e)) = SidekickEngine
           \<or> engine (schedulingService (loadModule e)) = GoogleCalendarEngine"
    by (simp add: loadModule_def Let_def new_service_engine createEngine_cases)
  have same: "snd (new_SchedulingService e) = snd (new_SchedulingService e')"
    if "e ''ENABLE_SIDEKICK'' = e' ''ENABLE_SIDEKICK''"
    using that by (simp add: new_SchedulingService_def Let_def createEngine_cases)
  from run_invariant [OF stub, of D acts] same show ?thesis
    by (simp add: createEngine_cases new_service_engine loadModule_def Let_def
          constructor_resolves_once)
qed

theorem C3_engine_selection_witness:
  "sidekickEnv ''ENABLE_SIDEKICK'' = (sidekickEnv(''PORT'' \<mapsto> ''3000'')) ''ENABLE_SIDEKICK''
   \<and> getEngineType (snd (new_SchedulingService sidekickEnv)) = ''SidekickEngine''
   \<and> getEngineType (snd (new_SchedulingService (sidekickEnv(''PORT'' \<mapsto> ''3000'')))) = ''SidekickEngine''
   \<and> getEngineType (snd (new_SchedulingService (\<lambda>v. None))) = ''GoogleCalendarEngine''
   \<and> env (run isoDateTime (loadModule sidekickEnv) toggleThenPropose) ''ENABLE_SIDEKICK'' = Some ''false''
   \<and> getEngineType (schedulingService (run isoDateTime (loadModule sidekickEnv) toggleThenPropose))
       = ''SidekickEngine''
   \<and> engine_resolutions (trace (run isoDateTime (loadModule sidekickEnv) toggleThenPropose)) = 1"
proof -
  have same: "sidekickEnv ''ENABLE_SIDEKICK'' = (sidekickEnv(''PORT'' \<mapsto> ''3000'')) ''ENABLE_SIDEKICK''"
    by (simp add: sidekickEnv_def)
  have sk: "getEngineType (snd (new_SchedulingService sidekickEnv)) = ''SidekickEngine''"
    by (simp add: getEngineType_def new_service_engine createEngine_cases sidekickEnv_def
          SidekickEngine_def)
  have gc: "getEngineType (snd (new_SchedulingService (\<lambda>v. None))) = ''GoogleCalendarEngine''"
    by (simp add: getEngineType_def new_service_engine createEngine_cases GoogleCalendarEngine_def)
  have env': "env (run isoDateTime (loadModule sidekickEnv) toggleThenPropose) ''ENABLE_SIDEKICK''
                = Some ''false''"
    by (simp add: run_def toggleThenPropose_def loadModule_def Let_def)
  note t = C3_engine_selection [of sidekickEnv "sidekickEnv(''PORT'' \<mapsto> ''3000'')" isoDateTime
         toggleThenPropose]
  from t same have eq: "snd (new_SchedulingService sidekickEnv)
                    = snd (new_SchedulingService (sidekickEnv(''PORT'' \<mapsto> ''3000'')))"
    by (elim conjE impE) assumption+
  from t have kept: "schedulingService (run isoDateTime (loadModule sidekickEnv) toggleThenPropose)
                    = snd (new_SchedulingService sidekickEnv)"
    by (elim conjE) assumption
  from t have once: "engine_resolutions (trace (run isoDateTime (loadModule sidekickEnv) toggleThenPropose)) = 1"
    by (elim conjE) assumption
  from sk eq have sk': "getEngineType (snd (new_SchedulingService (sidekickEnv(''PORT'' \<mapsto> ''3000''))))
                    = ''SidekickEngine''"
    by (simp only:)
  from sk kept have sk'': "getEngineType (schedulingService (run isoDateTime (loadModule sidekickEnv) toggleThenPropose))
       = ''SidekickEngine''"
    by (simp only:)
  from same sk sk' gc env' sk'' once show ?thesis
    by (intro conjI)
qed


section \<open>Enhancement\<close>

lemma enhanceRequest_fields:
  "subject (enhanceRequest r) = subject r"
  "attendees (enhanceRequest r) = attendees r"
  "earliestISO (enhanceRequest r) = earliestISO r"
  "latestISO (enhanceRequest r) = latestISO r"
  "constraints (enhanceRequest r) = constraints r"
  by (simp_all add: enhanceRequest_def)

lemma enhanceRequest_duration:
  "durationMinutes (enhanceRequest r) =
     (case durationMinutes r of
        None \<Rightarrow> Some 45
      | Some d \<Rightarrow> if d = 0 then Some 45 else Some d)"
  by (simp add: enhanceRequest_def truthy_number_def schedulingPolicy_def split: option.splits)

lemma validated_duration:
  assumes "validateMeetingRequest D r = Inr u"
  shows "durationMinutes r = None \<or> (\<exists>d. durationMinutes r = Some d \<and> 0 \<le> d)"
  using assms
  by (cases "durationMinutes r")
     (auto simp add: validateMeetingRequest_def split: if_splits sum.splits)

lemma enhanced_duration_positive:
  assumes "validateMeetingRequest D r = Inr u"
  shows "\<exists>d. durationMinutes (enhanceRequest r) = Some d \<and> 0 < d"
  using validated_duration [OF assms]
  by (auto simp add: enhanceRequest_duration)

text \<open>
  C4: when a request passes the validation, the request handed to the engine is the
  enhanced request. Its duration is the caller's when the caller supplied a positive
  one, and the policy default, 45, when the caller supplied none; it differs from the
  caller's request in the duration only.
\<close>

theorem C4_enhanced_duration:
  assumes "validateMeetingRequest D r = Inr ()"
  shows "(\<forall>d. durationMinutes r = Some d \<and> 0 < d \<longrightarrow> durationMinutes (enhanceRequest r) = Some d)
    \<and> (durationMinutes r = None \<longrightarrow>
         durationMinutes (enhanceRequest r) = Some (defaultDurationMinutes schedulingPolicy))
    \<and> defaultDurationMinutes schedulingPolicy = 45
    \<and> enhanceRequest r = r\<lparr> durationMinutes := durationMinutes (enhanceRequest r) \<rparr>
    \<and> engine_calls (fst (proposeSlots D svc r)) = [EnginePropose (getEngineType svc) (enhanceRequest r)]
    \<and> (validateTimeWindow D w = Inr () \<longrightarrow>
         engine_calls (fst (confirmSlot D svc r w))
           = [EngineBook (getEngineType svc) (enhanceRequest r) w])"
proof -
  have supplied: "durationMinutes (enhanceRequest r) = Some d"
    if "durationMinutes r = Some d \<and> 0 < d" for d
    using that by (simp add: enhanceRequest_duration)
  have absent: "durationMinutes (enhanceRequest r) = Some (defaultDurationMinutes schedulingPolicy)"
    if "durationMinutes r = None"
    using that by (simp add: enhanceRequest_duration schedulingPolicy_def)
  have policy: "defaultDurationMinutes schedulingPolicy = 45"
    by (simp add: schedulingPolicy_def)
  have others: "enhanceRequest r = r\<lparr> durationMinutes := durationMinutes (enhanceRequest r) \<rparr>"
    by (simp add: enhanceRequest_def)
  have p: "engine_calls (fst (proposeSlots D svc r))
             = [EnginePropose (getEngineType svc) (enhanceRequest r)]"
    using assms by (rule proposeSlots_accepted)
  have c: "engine_calls (fst (confirmSlot D svc r w))
             = [EngineBook (getEngineType svc) (enhanceRequest r) w]"
    if "validateTimeWindow D w = Inr ()"
    using assms that by (rule confirmSlot_accepted)
  from supplied absent policy others p c show ?thesis
    by (intro conjI allI impI) assumption+
qed

theorem C4_enhanced_duration_witness:
  "validateMeetingRequest isoDateTime dummyRequest = Inr ()
   \<and> durationMinutes dummyRequest = Some 30
   \<and> durationMinutes (enhanceRequest dummyRequest) = Some 30
   \<and> validateMeetingRequest isoDateTime syncRequest = Inr ()
   \<and> durationMinutes syncRequest = None
   \<and> durationMinutes (enhanceRequest syncRequest) = Some 45
   \<and> engine_calls (fst (proposeSlots isoDateTime \<lparr> engine = GoogleCalendarEngine \<rparr> syncRequest))
       = [EnginePropose ''GoogleCalendarEngine'' (syncRequest\<lparr> durationMinutes := Some 45 \<rparr>)]
   \<and> validateTimeWindow isoDateTime dummySlot = Inr ()
   \<and> engine_calls (fst (confirmSlot isoDateTime \<lparr> engine = GoogleCalendarEngine \<rparr> syncRequest dummySlot))
       = [EngineBook ''GoogleCalendarEngine'' (syncRequest\<lparr> durationMinutes := Some 45 \<rparr>) dummySlot]"
proof -
  have v1: "validateMeetingRequest isoDateTime dummyRequest = Inr ()" by code_simp
  have v2: "validateMeetingRequest isoDateTime syncRequest = Inr ()" by code_simp
  have w: "validateTimeWindow isoDateTime dummySlot = Inr ()" by code_simp
  have d1: "durationMinutes dummyRequest = Some 30 \<and> (0::int) < 30"
    by (simp add: dummyRequest_def)
  have d2: "durationMinutes syncRequest = None"
    by (simp add: syncRequest_def)
  have n: "getEngineType \<lparr> engine = GoogleCalendarEngine \<rparr> = ''GoogleCalendarEngine''"
    by (simp add: getEngineType_def GoogleCalendarEngine_def)
  note t1 = C4_enhanced_duration [OF v1, of "\<lparr> engine = GoogleCalendarEngine \<rparr>" dummySlot]
  note t2 = C4_enhanced_duration [OF v2, of "\<lparr> engine = GoogleCalendarEngine \<rparr>" dummySlot]
  from t1 d1 have e1: "durationMinutes (enhanceRequest dummyRequest) = Some 30"
    by blast
  from t2 have "durationMinutes syncRequest = None \<longrightarrow>
      durationMinutes (enhanceRequest syncRequest) = Some (defaultDurationMinutes schedulingPolicy)"
    by (elim conjE) assumption
  from this d2 have "durationMinutes (enhanceRequest syncRequest)
                       = Some (defaultDurationMinutes schedulingPolicy)"
    by (rule mp)
  moreover from t2 have "defaultDurationMinutes schedulingPolicy = 45"
    by (elim conjE) assumption
  ultimately have e2: "durationMinutes (enhanceRequest syncRequest) = Some 45"
    by (simp only:)
  from t2 have "enhanceRequest syncRequest
                  = syncRequest\<lparr> durationMinutes := durationMinutes (enhanceRequest syncRequest) \<rparr>"
    by (elim conjE) assumption
  with e2 have e3: "enhanceRequest syncRequest = syncRequest\<lparr> durationMinutes := Some 45 \<rparr>"
    by simp
  from t2 have "engine_calls (fst (proposeSlots isoDateTime \<lparr> engine = GoogleCalendarEngine \<rparr> syncRequest))
       = [EnginePropose (getEngineType \<lparr> engine = GoogleCalendarEngine \<rparr>) (enhanceRequest syncRequest)]"
    by (elim conjE) assumption
  with n e3 have p: "engine_calls (fst (proposeSlots isoDateTime \<lparr> engine = GoogleCalendarEngine \<rparr> syncRequest))
       = [EnginePropose ''GoogleCalendarEngine'' (syncRequest\<lparr> durationMinutes := Some 45 \<rparr>)]"
    by (simp only:)
  from t2 w d2 have "engine_calls (fst (confirmSlot isoDateTime \<lparr> engine = GoogleCalendarEngine \<rparr> syncRequest dummySlot))
       = [EngineBook (getEngineType \<lparr> engine = GoogleCalendarEngine \<rparr>) (enhanceRequest syncRequest) dummySlot]"
    by (elim conjE impE) assumption+
  with n e3 have c: "engine_calls (fst (confirmSlot isoDateTime \<lparr> engine = GoogleCalendarEngine \<rparr> syncRequest dummySlot))
       = [EngineBook ''GoogleCalendarEngine'' (syncRequest\<lparr> durationMinutes := Some 45 \<rparr>) dummySlot]"
    by (simp only:)
  from v1 d1 e1 v2 d2 e2 p w c show ?thesis
    by (intro conjI) (assumption | (elim conjE, assumption))+
qed


section \<open>Outcomes of the engine\<close>

text \<open>
  C5: for a valid request, an error raised by the engine's \<^verbatim>\<open>propose\<close> is the error
  raised by \<^verbatim>\<open>proposeSlots\<close>, and the engine has been called once (no retry); an empty
  sequence of proposals is returned as it is, as a success. For a valid slot, the same
  holds of \<^verbatim>\<open>book\<close> and \<^verbatim>\<open>confirmSlot\<close>.
\<close>

theorem C5_engine_outcome_propagates:
  assumes "validateMeetingRequest D r = Inr ()"
  shows "(\<forall>e. snd (propose (engine svc) (enhanceRequest r)) = Inl e \<longrightarrow>
            snd (proposeSlots D svc r) = Inl e
            \<and> length (engine_calls (fst (proposeSlots D svc r))) = 1)
    \<and> (snd (propose (engine svc) (enhanceRequest r)) = Inr [] \<longrightarrow>
            snd (proposeSlots D svc r) = Inr [])
    \<and> (validateTimeWindow D w = Inr () \<longrightarrow>
         (\<forall>e. snd (book (engine svc) (enhanceRequest r) w) = Inl e \<longrightarrow>
            snd (confirmSlot D svc r w) = Inl e
            \<and> length (engine_calls (fst (confirmSlot D svc r w))) = 1))"
proof -
  have p: "snd (proposeSlots D svc r) = snd (propose (engine svc) (enhanceRequest r))"
    using assms by (rule proposeSlots_accepted)
  have pc: "length (engine_calls (fst (proposeSlots D svc r))) = 1"
    using proposeSlots_accepted(2) [OF assms, of svc] by simp
  have c: "snd (confirmSlot D svc r w) = snd (book (engine svc) (enhanceRequest r) w)"
    if "validateTimeWindow D w = Inr ()"
    using assms that by (rule confirmSlot_accepted)
  have cc: "length (engine_calls (fst (confirmSlot D svc r w))) = 1"
    if "validateTimeWindow D w = Inr ()"
    using confirmSlot_accepted(2) [OF assms that, of svc] by simp
  from p pc c cc show ?thesis by simp
qed

theorem C5_engine_outcome_propagates_witness:
  "validateMeetingRequest isoDateTime dummyRequest = Inr ()
   \<and> snd (propose unavailableEngine (enhanceRequest dummyRequest))
       = Inl (Error ''calendar backend unavailable'')
   \<and> snd (proposeSlots isoDateTime \<lparr> engine = unavailableEngine \<rparr> dummyRequest)
       = Inl (Error ''calendar backend unavailable'')
   \<and> length (engine_calls (fst (proposeSlots isoDateTime \<lparr> engine = unavailableEngine \<rparr> dummyRequest))) = 1
   \<and> snd (propose SidekickEngine (enhanceRequest dummyRequest)) = Inr []
   \<and> snd (proposeSlots isoDateTime \<lparr> engine = SidekickEngine \<rparr> dummyRequest) = Inr []
   \<and> validateTimeWindow isoDateTime dummySlot = Inr ()
   \<and> snd (book unavailableEngine (enhanceRequest dummyRequest) dummySlot)
       = Inl (Error ''slot is no longer available'')
   \<and> snd (confirmSlot isoDateTime \<lparr> engine = unavailableEngine \<rparr> dummyRequest dummySlot)
       = Inl (Error ''slot is no longer available'')
   \<and> length (engine_calls (fst (confirmSlot isoDateTime \<lparr> engine = unavailableEngine \<rparr> dummyRequest dummySlot))) = 1"
proof -
  have v: "validateMeetingRequest isoDateTime dummyRequest = Inr ()" by code_simp
  have w: "validateTimeWindow isoDateTime dummySlot = Inr ()" by code_simp
  have pe: "snd (propose (engine \<lparr> engine = unavailableEngine \<rparr>) (enhanceRequest dummyRequest))
              = Inl (Error ''calendar backend unavailable'')"
    by (simp add: unavailableEngine_def)
  have be: "snd (book (engine \<lparr> engine = unavailableEngine \<rparr>) (enhanceRequest dummyRequest) dummySlot)
              = Inl (Error ''slot is no longer available'')"
    by (simp add: unavailableEngine_def)
  have ps: "snd (propose (engine \<lparr> engine = SidekickEngine \<rparr>) (enhanceRequest dummyRequest)) = Inr []"
    by (simp add: SidekickEngine_def)
  note t1 = C5_engine_outcome_propagates [OF v, of "\<lparr> engine = unavailableEngine \<rparr>" dummySlot]
  note t2 = C5_engine_outcome_propagates [OF v, of "\<lparr> engine = SidekickEngine \<rparr>" dummySlot]
  from t1 pe have a: "snd (proposeSlots isoDateTime \<lparr> engine = unavailableEngine \<rparr> dummyRequest)
       = Inl (Error ''calendar backend unavailable'')
     \<and> length (engine_calls (fst (proposeSlots isoDateTime \<lparr> engine = unavailableEngine \<rparr> dummyRequest))) = 1"
    by blast
  from t2 ps have b: "snd (proposeSlots isoDateTime \<lparr> engine = SidekickEngine \<rparr> dummyRequest) = Inr []"
    by blast
  from t1 w be have c: "snd (confirmSlot isoDateTime \<lparr> engine = unavailableEngine \<rparr> dummyRequest dummySlot)
       = Inl (Error ''slot is no longer available'')
     \<and> length (engine_calls (fst (confirmSlot isoDateTime \<lparr> engine = unavailableEngine \<rparr> dummyRequest dummySlot))) = 1"
    by blast
  from v pe a ps b w be c show ?thesis by simp
qed


section \<open>Slot validation\<close>

lemma validateTimeWindow_cases:
  "validateTimeWindow D w =
     (case D (startISO w) of
        None \<Rightarrow> Inl (Error ''Invalid time slot format'')
      | Some s \<Rightarrow>
          (case D (endISO w) of
             None \<Rightarrow> Inl (Error ''Invalid time slot format'')
           | Some e \<Rightarrow>
               if s < e then Inr ()
               else Inl (Error ''Meeting start time must be before end time'')))"
  by (auto simp add: validateTimeWindow_def Let_def date_isNaN_def date_ge_def
        split: option.splits)

text \<open>
  C6: for a request that passes the validation, \<^verbatim>\<open>confirmSlot\<close> rejects with
  "Invalid time slot format" when the start or the end of the slot is not a valid date;
  otherwise, when the start is not strictly before the end, it rejects with "Meeting
  start time must be before end time" (the specification's \<^verbatim>\<open>InvalidSlot\<close> errors). In both
  cases the engine's \<^verbatim>\<open>book\<close> is not called.
\<close>

theorem C6_slot_validation:
  assumes "validateMeetingRequest D r = Inr ()"
  shows "(D (startISO w) = None \<or> D (endISO w) = None \<longrightarrow>
            snd (confirmSlot D svc r w) = Inl (Error ''Invalid time slot format'')
            \<and> engine_calls (fst (confirmSlot D svc r w)) = [])
    \<and> (\<forall>s e. D (startISO w) = Some s \<and> D (endISO w) = Some e \<and> \<not> s < e \<longrightarrow>
            snd (confirmSlot D svc r w) = Inl (Error ''Meeting start time must be before end time'')
            \<and> engine_calls (fst (confirmSlot D svc r w)) = [])"
proof -
  have bad: "snd (confirmSlot D svc r w) = Inl err \<and> engine_calls (fst (confirmSlot D svc r w)) = []"
    if "validateTimeWindow D w = Inl err" for err
    using confirmSlot_rejected_slot [OF assms that, of svc] by simp
  have fmt: "validateTimeWindow D w = Inl (Error ''Invalid time slot format'')"
    if "D (startISO w) = None \<or> D (endISO w) = None"
    using that by (auto simp add: validateTimeWindow_cases split: option.splits)
  have ord: "validateTimeWindow D w = Inl (Error ''Meeting start time must be before end time'')"
    if "D (startISO w) = Some s \<and> D (endISO w) = Some e \<and> \<not> s < e" for s e
    using that by (simp add: validateTimeWindow_cases)
  from bad fmt ord show ?thesis by blast
qed

theorem C6_slot_validation_witness:
  "validateMeetingRequest isoDateTime dummyRequest = Inr ()
   \<and> isoDateTime (startISO invalidSlot) = None
   \<and> snd (confirmSlot isoDateTime \<lparr> engine = GoogleCalendarEngine \<rparr> dummyRequest invalidSlot)
       = Inl (Error ''Invalid time slot format'')
   \<and> engine_calls (fst (confirmSlot isoDateTime \<lparr> engine = GoogleCalendarEngine \<rparr> dummyRequest invalidSlot)) = []
   \<and> isoDateTime (startISO invertedSlot) = Some 1705329000000
   \<and> isoDateTime (endISO invertedSlot) = Some 1705327200000
   \<and> snd (confirmSlot isoDateTime \<lparr> engine = GoogleCalendarEngine \<rparr> dummyRequest invertedSlot)
       = Inl (Error ''Meeting start time must be before end time'')
   \<and> engine_calls (fst (confirmSlot isoDateTime \<lparr> engine = GoogleCalendarEngine \<rparr> dummyRequest invertedSlot)) = []"
proof -
  have v: "validateMeetingRequest isoDateTime dummyRequest = Inr ()" by code_simp
  have s1: "isoDateTime (startISO invalidSlot) = None" by code_simp
  have s2: "isoDateTime (startISO invertedSlot) = Some 1705329000000" by code_simp
  have e2: "isoDateTime (endISO invertedSlot) = Some 1705327200000" by code_simp
  note t1 = C6_slot_validation [OF v, of invalidSlot "\<lparr> engine = GoogleCalendarEngine \<rparr>"]
  note t2 = C6_slot_validation [OF v, of invertedSlot "\<lparr> engine = GoogleCalendarEngine \<rparr>"]
  from t1 s1 have a:
    "snd (confirmSlot isoDateTime \<lparr> engine = GoogleCalendarEngine \<rparr> dummyRequest invalidSlot)
       = Inl (Error ''Invalid time slot format'')
     \<and> engine_calls (fst (confirmSlot isoDateTime \<lparr> engine = GoogleCalendarEngine \<rparr> dummyRequest invalidSlot)) = []"
    by blast
  have "\<not> (1705329000000::int) < 1705327200000" by simp
  with t2 s2 e2 have b:
    "snd (confirmSlot isoDateTime \<lparr> engine = GoogleCalendarEngine \<rparr> dummyRequest invertedSlot)
       = Inl (Error ''Meeting start time must be before end time'')
     \<and> engine_calls (fst (confirmSlot isoDateTime \<lparr> engine = GoogleCalendarEngine \<rparr> dummyRequest invertedSlot)) = []"
    by blast
  from v s1 a s2 e2 b show ?thesis by simp
qed


section \<open>The booking result\<close>

lemma stub_book: 
  "snd (book (snd (createEngine env')) q w) = Inr \<lparr> eventId = ''TBD'' \<rparr>"
  by (simp add: createEngine_cases SidekickEngine_def GoogleCalendarEngine_def)

text \<open>
  C7: for a valid request and a valid slot, \<^verbatim>\<open>confirmSlot\<close> returns the outcome of the
  engine's \<^verbatim>\<open>book\<close> as it is, event identifier included. The engine of a service is one of
  the two that \<^verbatim>\<open>createEngine\<close> builds, so a successful booking carries the identifier
  \<^verbatim>\<open>TBD\<close>, which is not empty.
\<close>

theorem C7_booking_result_unchanged:
  assumes "validateMeetingRequest D r = Inr ()" and "validateTimeWindow D w = Inr ()"
  shows "snd (confirmSlot D svc r w) = snd (book (engine svc) (enhanceRequest r) w)
    \<and> (\<forall>res. snd (book (engine svc) (enhanceRequest r) w) = Inr res \<longrightarrow>
          snd (confirmSlot D svc r w) = Inr res)
    \<and> snd (confirmSlot D (snd (new_SchedulingService e)) r w) = Inr \<lparr> eventId = ''TBD'' \<rparr>
    \<and> (\<forall>res. snd (confirmSlot D (snd (new_SchedulingService e)) r w) = Inr res \<longrightarrow>
          eventId res \<noteq> [])"
proof -
  have same: "snd (confirmSlot D svc' r w) = snd (book (engine svc') (enhanceRequest r) w)" for svc'
    using assms by (rule confirmSlot_accepted)
  have tbd: "snd (confirmSlot D (snd (new_SchedulingService e)) r w) = Inr \<lparr> eventId = ''TBD'' \<rparr>"
    by (simp add: same new_service_engine stub_book)
  from same [of svc] tbd show ?thesis by auto
qed

theorem C7_booking_result_unchanged_witness:
  "validateMeetingRequest isoDateTime dummyRequest = Inr ()
   \<and> validateTimeWindow isoDateTime dummySlot = Inr ()
   \<and> snd (book (engine (snd (new_SchedulingService sidekickEnv))) (enhanceRequest dummyRequest) dummySlot)
       = Inr \<lparr> eventId = ''TBD'' \<rparr>
   \<and> snd (confirmSlot isoDateTime (snd (new_SchedulingService sidekickEnv)) dummyRequest dummySlot)
       = Inr \<lparr> eventId = ''TBD'' \<rparr>
   \<and> eventId \<lparr> eventId = ''TBD'' \<rparr> \<noteq> []"
proof -
  have v: "validateMeetingRequest isoDateTime dummyRequest = Inr ()" by code_simp
  have w: "validateTimeWindow isoDateTime dummySlot = Inr ()" by code_simp
  have b: "snd (book (engine (snd (new_SchedulingService sidekickEnv))) (enhanceRequest dummyRequest) dummySlot)
       = Inr \<lparr> eventId = ''TBD'' \<rparr>"
    by (simp add: new_service_engine stub_book)
  note t = C7_booking_result_unchanged [OF v w, of "snd (new_SchedulingService sidekickEnv)" sidekickEnv]
  from t b have c: "snd (confirmSlot isoDateTime (snd (new_SchedulingService sidekickEnv)) dummyRequest dummySlot)
       = Inr \<lparr> eventId = ''TBD'' \<rparr>"
    by blast
  with t have "eventId \<lparr> eventId = ''TBD'' \<rparr> \<noteq> []"
    by blast
  with v w b c show ?thesis by simp
qed


section \<open>The caller's request is not written\<close>











section \<open>The duration an engine receives\<close>

lemma proposeSlots_trace_calls:
  assumes "EnginePropose n q \<in> set (fst (proposeSlots D svc r))"
  shows "q = enhanceRequest r \<and> (\<exists>u. validateMeetingRequest D r = Inr u)"
proof (cases "validateMeetingRequest D r")
  case (Inl e)
  with assms show ?thesis by (simp add: proposeSlots_rejected)
next
  case (Inr u)
  from assms have "EnginePropose n q \<in> set (engine_calls (fst (proposeSlots D svc r)))"
    by (simp add: engine_calls_def)
  with Inr show ?thesis
    by (simp add: proposeSlots_accepted)
qed

lemma confirmSlot_trace_calls:
  assumes "EngineBook n q w' \<in> set (fst (confirmSlot D svc r w))"
  shows "q = enhanceRequest r \<and> (\<exists>u. validateMeetingRequest D r = Inr u)"
proof (cases "validateMeetingRequest D r")
  case (Inl e)
  with assms show ?thesis by (simp add: confirmSlot_rejected_request)
next
  case (Inr u)
  show ?thesis
  proof (cases "validateTimeWindow D w")
    case (Inl e)
    with Inr assms show ?thesis by (simp add: confirmSlot_rejected_slot)
  next
    case w_ok: (Inr v)
    from assms have "EngineBook n q w' \<in> set (engine_calls (fst (confirmSlot D svc r w)))"
      by (simp add: engine_calls_def)
    with Inr w_ok show ?thesis
      by (simp add: confirmSlot_accepted)
  qed
qed

lemma zero_duration_as_absent:
  "validateMeetingRequest D (r\<lparr> durationMinutes := Some 0 \<rparr>)
     = validateMeetingRequest D (r\<lparr> durationMinutes := None \<rparr>)"
  by (simp add: validateMeetingRequest_def cong: sum.case_cong option.case_cong)

text \<open>
  C9: every request that \<^verbatim>\<open>proposeSlots\<close> or \<^verbatim>\<open>confirmSlot\<close> hands to an engine has a
  positive duration. A positive duration of the caller is passed through; an absent one
  and a zero one (which the validation treats as an absent one) are replaced by the
  policy default, 45.
\<close>

theorem C9_delegated_duration_positive:
  "(\<forall>n q. EnginePropose n q \<in> set (fst (proposeSlots D svc r)) \<longrightarrow>
       (\<exists>d. durationMinutes q = Some d \<and> 0 < d))
   \<and> (\<forall>n q w'. EngineBook n q w' \<in> set (fst (confirmSlot D svc r w)) \<longrightarrow>
       (\<exists>d. durationMinutes q = Some d \<and> 0 < d))
   \<and> (\<forall>d. durationMinutes r = Some d \<and> 0 < d \<longrightarrow> durationMinutes (enhanceRequest r) = Some d)
   \<and> (durationMinutes r = None \<or> durationMinutes r = Some 0 \<longrightarrow>
        durationMinutes (enhanceRequest r) = Some 45)
   \<and> validateMeetingRequest D (r\<lparr> durationMinutes := Some 0 \<rparr>)
        = validateMeetingRequest D (r\<lparr> durationMinutes := None \<rparr>)"
proof -
  have p: "\<exists>d. durationMinutes q = Some d \<and> 0 < d"
    if "EnginePropose n q \<in> set (fst (proposeSlots D svc r))" for n q
    using proposeSlots_trace_calls [OF that] enhanced_duration_positive by blast
  have b: "\<exists>d. durationMinutes q = Some d \<and> 0 < d"
    if "EngineBook n q w' \<in> set (fst (confirmSlot D svc r w))" for n q w'
    using confirmSlot_trace_calls [OF that] enhanced_duration_positive by blast
  have s: "durationMinutes (enhanceRequest r) = Some d"
    if "durationMinutes r = Some d \<and> 0 < d" for d
    using that by (simp add: enhanceRequest_duration)
  have z: "durationMinutes (enhanceRequest r) = Some 45"
    if "durationMinutes r = None \<or> durationMinutes r = Some 0"
    using that by (auto simp add: enhanceRequest_duration)
  from p b s z zero_duration_as_absent [of D r] show ?thesis
    by (intro conjI allI impI) (assumption | blast)+
qed

theorem C9_delegated_duration_positive_witness:
  "EnginePropose ''GoogleCalendarEngine'' (zeroDurationRequest\<lparr> durationMinutes := Some 45 \<rparr>)
     \<in> set (fst (proposeSlots isoDateTime \<lparr> engine = GoogleCalendarEngine \<rparr> zeroDurationRequest))
   \<and> EngineBook ''GoogleCalendarEngine'' (zeroDurationRequest\<lparr> durationMinutes := Some 45 \<rparr>) dummySlot
     \<in> set (fst (confirmSlot isoDateTime \<lparr> engine = GoogleCalendarEngine \<rparr> zeroDurationRequest dummySlot))
   \<and> (\<exists>d. durationMinutes (zeroDurationRequest\<lparr> durationMinutes := Some 45 \<rparr>) = Some d \<and> 0 < d)
   \<and> durationMinutes zeroDurationRequest = Some 0
   \<and> durationMinutes (enhanceRequest zeroDurationRequest) = Some 45
   \<and> durationMinutes dummyRequest = Some 30
   \<and> durationMinutes (enhanceRequest dummyRequest) = Some 30"
proof -
  have p: "EnginePropose ''GoogleCalendarEngine'' (zeroDurationRequest\<lparr> durationMinutes := Some 45 \<rparr>)
     \<in> set (fst (proposeSlots isoDateTime \<lparr> engine = GoogleCalendarEngine \<rparr> zeroDurationRequest))"
    by code_simp
  have b: "EngineBook ''GoogleCalendarEngine'' (zeroDurationRequest\<lparr> durationMinutes := Some 45 \<rparr>) dummySlot
     \<in> set (fst (confirmSlot isoDateTime \<lparr> engine = GoogleCalendarEngine \<rparr> zeroDurationRequest dummySlot))"
    by code_simp
  have z: "durationMinutes zeroDurationRequest = Some 0"
    by (simp add: zeroDurationRequest_def)
  have d: "durationMinutes dummyRequest = Some 30 \<and> (0::int) < 30"
    by (simp add: dummyRequest_def)
  note t1 = C9_delegated_duration_positive [of isoDateTime "\<lparr> engine = GoogleCalendarEngine \<rparr>"
              zeroDurationRequest dummySlot]
  note t2 = C9_delegated_duration_positive [of isoDateTime "\<lparr> engine = GoogleCalendarEngine \<rparr>"
              dummyRequest dummySlot]
  from t1 p have pos: "\<exists>d. durationMinutes (zeroDurationRequest\<lparr> durationMinutes := Some 45 \<rparr>) = Some d \<and> 0 < d"
    by blast
  from t1 z have e0: "durationMinutes (enhanceRequest zeroDurationRequest) = Some 45"
    by blast
  from t2 d have e1: "durationMinutes (enhanceRequest dummyRequest) = Some 30"
    by blast
  from p b pos z e0 d e1 show ?thesis
    by (intro conjI) (assumption | (elim conjE, assumption))+
qed


section \<open>Bounds that are not dates\<close>

lemma range_check_skipped:
  assumes "earliestISO r = Some e" and "latestISO r = Some l"
    and "D e = None \<or> D l = None"
  shows "validateMeetingRequest D r
           = validateMeetingRequest D (r\<lparr> earliestISO := None, latestISO := None \<rparr>)"
  using assms
  by (auto simp add: validateMeetingRequest_def Let_def date_ge_def
        split: option.splits sum.splits)

lemma validate_errors:
  assumes "validateMeetingRequest D r = Inl err"
  shows "err = Error ''Meeting subject is required''
       \<or> err = Error ''At least one attendee is required''
       \<or> (\<exists>a\<in>set (attendees r). err = Error (''Invalid email address for attendee: '' @ email a))
       \<or> err = Error ''Meeting duration must be positive''
       \<or> (err = Error ''Earliest time must be before latest time''
           \<and> (\<exists>e l a b. earliestISO r = Some e \<and> latestISO r = Some l
                 \<and> D e = Some a \<and> D l = Some b \<and> b \<le> a))"
proof -
  have att: "\<exists>a\<in>set xs. x = Error (''Invalid email address for attendee: '' @ email a)"
    if "validateAttendees xs = Inl x" for xs x
    using that by (induction xs) (auto split: if_splits)
  from assms att [of "attendees r" err] show ?thesis
    by (auto simp add: validateMeetingRequest_def Let_def date_ge_def
          split: if_splits sum.splits option.splits)
qed

text \<open>
  C10: when both bounds of a request are non-empty strings and one of them is not a
  valid date, the validation gives what it gives without the bounds: the time-range
  check raises nothing. If the other checks pass, the request is valid and
  \<^verbatim>\<open>proposeSlots\<close> calls the engine with it. A string that is not a date is rejected only in
  the slot of \<^verbatim>\<open>confirmSlot\<close>.
\<close>

theorem C10_unparseable_bounds_pass:
  assumes "earliestISO r = Some e" and "latestISO r = Some l" and "e \<noteq> []" and "l \<noteq> []"
    and "D e = None \<or> D l = None"
  shows "validateMeetingRequest D r
           = validateMeetingRequest D (r\<lparr> earliestISO := None, latestISO := None \<rparr>)
    \<and> validateMeetingRequest D r \<noteq> Inl (Error ''Earliest time must be before latest time'')
    \<and> (validateMeetingRequest D (r\<lparr> earliestISO := None, latestISO := None \<rparr>) = Inr () \<longrightarrow>
          validateMeetingRequest D r = Inr ()
          \<and> engine_calls (fst (proposeSlots D svc r))
              = [EnginePropose (getEngineType svc) (enhanceRequest r)]
          \<and> snd (proposeSlots D svc r) = snd (propose (engine svc) (enhanceRequest r))
          \<and> (D (startISO w) = None \<or> D (endISO w) = None \<longrightarrow>
               snd (confirmSlot D svc r w) = Inl (Error ''Invalid time slot format'')))"
proof -
  have skip: "validateMeetingRequest D r
           = validateMeetingRequest D (r\<lparr> earliestISO := None, latestISO := None \<rparr>)"
    using assms(1,2,5) by (rule range_check_skipped)
  have no_range: "validateMeetingRequest D r \<noteq> Inl (Error ''Earliest time must be before latest time'')"
  proof
    assume "validateMeetingRequest D r = Inl (Error ''Earliest time must be before latest time'')"
    from validate_errors [OF this] assms show False by auto
  qed
  have rest: "validateMeetingRequest D r = Inr ()
          \<and> engine_calls (fst (proposeSlots D svc r))
              = [EnginePropose (getEngineType svc) (enhanceRequest r)]
          \<and> snd (proposeSlots D svc r) = snd (propose (engine svc) (enhanceRequest r))
          \<and> (D (startISO w) = None \<or> D (endISO w) = None \<longrightarrow>
               snd (confirmSlot D svc r w) = Inl (Error ''Invalid time slot format''))"
    if ok: "validateMeetingRequest D (r\<lparr> earliestISO := None, latestISO := None \<rparr>) = Inr ()"
  proof -
    from ok skip have v: "validateMeetingRequest D r = Inr ()" by simp
    have "snd (confirmSlot D svc r w) = Inl (Error ''Invalid time slot format'')"
      if "D (startISO w) = None \<or> D (endISO w) = None"
    proof -
      from that have "validateTimeWindow D w = Inl (Error ''Invalid time slot format'')"
        by (auto simp add: validateTimeWindow_cases split: option.splits)
      from confirmSlot_rejected_slot [OF v this, of svc] show ?thesis by simp
    qed
    with v proposeSlots_accepted [OF v, of svc] show ?thesis by simp
  qed
  from skip no_range rest show ?thesis by blast
qed

theorem C10_unparseable_bounds_pass_witness:
  "earliestISO unparseableBoundRequest = Some ''invalid-date''
   \<and> latestISO unparseableBoundRequest = Some ''2024-01-15T18:00:00.000Z''
   \<and> isoDateTime ''invalid-date'' = None
   \<and> validateMeetingRequest isoDateTime unparseableBoundRequest = Inr ()
   \<and> engine_calls (fst (proposeSlots isoDateTime \<lparr> engine = SidekickEngine \<rparr> unparseableBoundRequest))
       = [EnginePropose ''SidekickEngine'' (enhanceRequest unparseableBoundRequest)]
   \<and> isoDateTime (startISO invalidSlot) = None
   \<and> snd (confirmSlot isoDateTime \<lparr> engine = SidekickEngine \<rparr> unparseableBoundRequest invalidSlot)
       = Inl (Error ''Invalid time slot format'')"
proof -
  have e: "earliestISO unparseableBoundRequest = Some ''invalid-date''"
    by (simp add: unparseableBoundRequest_def)
  have l: "latestISO unparseableBoundRequest = Some ''2024-01-15T18:00:00.000Z''"
    by (simp add: unparseableBoundRequest_def dummyRequest_def)
  have ne: "''invalid-date'' \<noteq> []" "''2024-01-15T18:00:00.000Z'' \<noteq> []"
    by simp_all
  have d: "isoDateTime ''invalid-date'' = None" by code_simp
  then have d': "isoDateTime ''invalid-date'' = None \<or> isoDateTime ''2024-01-15T18:00:00.000Z'' = None"
    by (rule disjI1)
  have s: "isoDateTime (startISO invalidSlot) = None" by code_simp
  have ok: "validateMeetingRequest isoDateTime
              (unparseableBoundRequest\<lparr> earliestISO := None, latestISO := None \<rparr>) = Inr ()"
    by code_simp
  have n: "getEngineType \<lparr> engine = SidekickEngine \<rparr> = ''SidekickEngine''"
    by (simp add: getEngineType_def SidekickEngine_def)
  note t = C10_unparseable_bounds_pass [OF e l ne d', of "\<lparr> engine = SidekickEngine \<rparr>" invalidSlot]
  from t ok have v: "validateMeetingRequest isoDateTime unparseableBoundRequest = Inr ()"
    by blast
  from t ok have "engine_calls (fst (proposeSlots isoDateTime \<lparr> engine = SidekickEngine \<rparr> unparseableBoundRequest))
       = [EnginePropose (getEngineType \<lparr> engine = SidekickEngine \<rparr>) (enhanceRequest unparseableBoundRequest)]"
    by blast
  with n have c: "engine_calls (fst (proposeSlots isoDateTime \<lparr> engine = SidekickEngine \<rparr> unparseableBoundRequest))
       = [EnginePropose ''SidekickEngine'' (enhanceRequest unparseableBoundRequest)]"
    by (simp only:)
  from t ok s have r: "snd (confirmSlot isoDateTime \<lparr> engine = SidekickEngine \<rparr> unparseableBoundRequest invalidSlot)
       = Inl (Error ''Invalid time slot format'')"
    by blast
  from e l d v c s r show ?thesis
    by (intro conjI)
qed


end
